theory Spec2Isabelle
  imports Main
begin

section \<open>Data model\<close>

text \<open>
  The two handler modules of the repository, \<^verbatim>\<open>awscommunity_s3_object/handlers.py\<close> and
  \<^verbatim>\<open>aws_s3_object/handlers.py\<close>, are embedded side by side. Functions whose text is the
  same in both modules are defined once; where the modules differ, the definitions taken
  from \<^verbatim>\<open>aws_s3_object\<close> carry the prefix \<open>aws_\<close>. A leading underscore of a Python
  name is dropped.
\<close>

datatype OperationStatus = PENDING | IN_PROGRESS | SUCCESS | FAILED

datatype HandlerErrorCode =
  NotFound | InvalidRequest | Throttling | GeneralServiceException | InternalFailure

text \<open>
  Python exceptions as values. \<open>ClientError code text\<close> is botocore's
  \<^verbatim>\<open>ClientError\<close> with \<^verbatim>\<open>response["Error"]["Code"] = code\<close> and \<^verbatim>\<open>str(ce) = text\<close>;
  \<open>InternalFailureExc\<close> is \<^verbatim>\<open>exceptions.InternalFailure\<close> of the plugin library;
  \<open>GenericException\<close> is a plain \<^verbatim>\<open>Exception(text)\<close>; \<open>OtherError\<close> stands for any
  further exception class a backend client may raise. All of them derive from
  \<^verbatim>\<open>Exception\<close>; only \<open>TypeError\<close> is a \<^verbatim>\<open>TypeError\<close>. The string of an exception
  is what \<^verbatim>\<open>str(e)\<close> gives; the texts of the interpreter's own exceptions are shortened.
\<close>

datatype pyexc =
    ClientError string string
  | TypeError string
  | AttributeError string
  | UnboundLocalError string
  | KeyError string
  | ValueError string
  | GenericException string
  | InternalFailureExc string
  | OtherError string

fun exc_str :: "pyexc \<Rightarrow> string" where
  "exc_str (ClientError code text) = text"
| "exc_str (TypeError text) = text"
| "exc_str (AttributeError text) = text"
| "exc_str (UnboundLocalError text) = text"
| "exc_str (KeyError text) = text"
| "exc_str (ValueError text) = text"
| "exc_str (GenericException text) = text"
| "exc_str (InternalFailureExc text) = text"
| "exc_str (OtherError text) = text"

text \<open>
  Modelled from the spec: the generated module \<^verbatim>\<open>models.py\<close> (classes \<^verbatim>\<open>Tag\<close>,
  \<^verbatim>\<open>ResourceModel\<close>, \<^verbatim>\<open>ResourceHandlerRequest\<close>) is not among the sources. The fields
  are those of the spec's Resource Model; every field is optional in Python (\<open>None\<close> is
  Python's \<^verbatim>\<open>None\<close>), which the handlers test by truthiness.
\<close>

record Tag =
  Key :: "string option"
  Value :: "string option"

record ResourceModel =
  BucketName :: "string option"
  ObjectKey :: "string option"
  ObjectContents :: "string option"
  ObjectArn :: "string option"
  Tags :: "Tag list option"

text \<open>
  The handlers mutate the model object they receive, and the event they return refers to
  that same object. Model objects therefore live in a store, and a variable holding a
  model is an address (\<open>None\<close> for Python's \<^verbatim>\<open>None\<close>).
\<close>

type_synonym addr = nat
type_synonym heap = "addr \<Rightarrow> ResourceModel"

text \<open>
  Modelled from the spec: \<^verbatim>\<open>ResourceHandlerRequest\<close> of the absent \<^verbatim>\<open>models.py\<close>, with
  the desired state and the stack-level tag mapping, kept in iteration order.
\<close>

record ResourceHandlerRequest =
  desiredResourceState :: "addr option"
  desiredResourceTags :: "(string \<times> string) list option"

type_synonym callback_context = "(string \<times> OperationStatus) list"

text \<open>
  \<^verbatim>\<open>ProgressEvent\<close> of the plugin library, with its defaults in \<open>ProgressEvent_default\<close>.
  The models of a listing are new objects that nothing else refers to, so
  \<open>resourceModels\<close> holds them by value.
\<close>

record ProgressEvent =
  status :: OperationStatus
  errorCode :: "HandlerErrorCode option"
  message :: string
  callbackContext :: "callback_context option"
  callbackDelaySeconds :: int
  resourceModel :: "addr option"
  resourceModels :: "ResourceModel list option"

definition ProgressEvent_default :: "OperationStatus \<Rightarrow> ProgressEvent" where
  "ProgressEvent_default st =
     \<lparr>status = st, errorCode = None, message = [], callbackContext = None,
      callbackDelaySeconds = 0, resourceModel = None, resourceModels = None\<rparr>"

definition ProgressEvent_failed :: "HandlerErrorCode \<Rightarrow> string \<Rightarrow> ProgressEvent" where
  "ProgressEvent_failed code msg =
     (ProgressEvent_default FAILED)\<lparr>errorCode := Some code, message := msg\<rparr>"

text \<open>
  What a handler invocation yields: an event, Python's \<^verbatim>\<open>None\<close> (a function body that
  ends without \<^verbatim>\<open>return\<close>), or an exception that leaves the handler.
\<close>

datatype py_result = Event ProgressEvent | NoneReturned | Raised pyexc

definition CALLBACK_DELAY_SECONDS :: int where
  "CALLBACK_DELAY_SECONDS = 5"

definition CALLBACK_STATUS_IN_PROGRESS :: callback_context where
  "CALLBACK_STATUS_IN_PROGRESS = [(''status'', IN_PROGRESS)]"

subsection \<open>The backend capability\<close>

text \<open>
  The blob-storage client is an external collaborator. Its five operations are
  parameters of the model: each takes the backend state \<open>'s\<close> and returns the new state
  with either the exception raised or the part of the response the handlers read.
  \<^item> \<open>client_put_object bucket key body tagging\<close>: the response dictionary, or \<open>None\<close>
    if the client returns Python's \<^verbatim>\<open>None\<close>;
  \<^item> \<open>client_get_object\<close>: \<^verbatim>\<open>response['Body'].read().decode("utf-8")\<close>;
  \<^item> \<open>client_get_object_tagging\<close>: \<^verbatim>\<open>response['TagSet']\<close>, a list of dictionaries;
  \<^item> \<open>client_list_objects_v2\<close>: \<^verbatim>\<open>response['Contents']\<close> if that key is present.
\<close>

type_synonym pydict = "(string \<times> string) list"

record 's s3_client =
  client_put_object ::
    "string \<Rightarrow> string \<Rightarrow> string \<Rightarrow> string option \<Rightarrow> 's \<Rightarrow> (pyexc + pydict option) \<times> 's"
  client_get_object :: "string \<Rightarrow> string \<Rightarrow> 's \<Rightarrow> (pyexc + string) \<times> 's"
  client_get_object_tagging :: "string \<Rightarrow> string \<Rightarrow> 's \<Rightarrow> (pyexc + pydict list) \<times> 's"
  client_delete_object :: "string \<Rightarrow> string \<Rightarrow> 's \<Rightarrow> (pyexc + unit) \<times> 's"
  client_list_objects_v2 :: "string \<Rightarrow> 's \<Rightarrow> (pyexc + pydict list option) \<times> 's"

datatype 's SessionProxy = SessionProxy (session_client: "string \<Rightarrow> 's s3_client")

section \<open>Helpers shared by both modules\<close>

definition truthy :: "string option \<Rightarrow> bool" where
  "truthy x = (case x of None \<Rightarrow> False | Some v \<Rightarrow> v \<noteq> [])"

text \<open>
  A local that starts as the empty string and takes the field's value if that is truthy:
  \<^verbatim>\<open>x = ""; if model and model.F: x = model.F\<close>.
\<close>

definition or_empty :: "string option \<Rightarrow> string" where
  "or_empty x = (case x of Some v \<Rightarrow> (if v \<noteq> [] then v else []) | None \<Rightarrow> [])"

text \<open>An optional string inside an f-string: \<^verbatim>\<open>None\<close> prints as \<^verbatim>\<open>None\<close>.\<close>

definition py_format :: "string option \<Rightarrow> string" where
  "py_format x = (case x of None \<Rightarrow> ''None'' | Some v \<Rightarrow> v)"

definition is_callback :: "callback_context \<Rightarrow> bool" where
  "is_callback callback_context =
     (if map_of callback_context ''status'' = map_of CALLBACK_STATUS_IN_PROGRESS ''status''
      then True else False)"

definition get_handler_error_code :: "string \<Rightarrow> HandlerErrorCode" where
  "get_handler_error_code api_error_code =
     (if api_error_code = ''NoSuchKey'' then NotFound
      else if api_error_code \<in> set
        [''InvalidParameter'',
         ''InvalidParameterCombination'',
         ''InvalidParameterValue'',
         ''InvalidTagKey.Malformed'',
         ''MissingAction'',
         ''MissingParameter'',
         ''UnknownParameter'',
         ''ValidationError'']
      then InvalidRequest
      else if api_error_code \<in> set [''RequestLimitExceeded''] then Throttling
      else GeneralServiceException)"

definition progress_event_callback :: "addr option \<Rightarrow> ProgressEvent" where
  "progress_event_callback model =
     (ProgressEvent_default IN_PROGRESS)
       \<lparr>callbackContext := Some CALLBACK_STATUS_IN_PROGRESS,
        callbackDelaySeconds := CALLBACK_DELAY_SECONDS,
        resourceModel := model\<rparr>"

text \<open>
  \<^verbatim>\<open>not model\<close> holds for \<^verbatim>\<open>None\<close> only (a model object is truthy); \<^verbatim>\<open>not models\<close>
  holds for \<^verbatim>\<open>None\<close> and for the empty list.
\<close>

definition progress_event_success ::
  "addr option \<Rightarrow> ResourceModel list option \<Rightarrow> bool \<Rightarrow> bool \<Rightarrow> pyexc + ProgressEvent" where
  "progress_event_success model models is_delete_handler is_list_handler =
     (if model = None \<and> (models = None \<or> models = Some [])
         \<and> \<not> is_delete_handler \<and> \<not> is_list_handler
      then Inl (ValueError ''Model, or models, or is_delete_handler, or is_list_handler unset'')
      else if is_delete_handler \<and> is_list_handler
      then Inl (ValueError ''Specify either is_delete_handler or is_list_handler, not both'')
      else if is_delete_handler then Inr (ProgressEvent_default SUCCESS)
      else if is_list_handler then Inr ((ProgressEvent_default SUCCESS)\<lparr>resourceModels := models\<rparr>)
      else Inr ((ProgressEvent_default SUCCESS)\<lparr>resourceModel := model\<rparr>))"

text \<open>The logging of \<^verbatim>\<open>_progress_event_failed\<close> goes to an external transport and is left out.\<close>

definition progress_event_failed :: "HandlerErrorCode \<Rightarrow> string \<Rightarrow> ProgressEvent" where
  "progress_event_failed handler_error_code error_message =
     ProgressEvent_failed handler_error_code (''Error: '' @ error_message)"

definition get_session_client :: "'s SessionProxy option \<Rightarrow> string \<Rightarrow> 's s3_client option" where
  "get_session_client session service_name =
     (case session of Some sp \<Rightarrow> Some (session_client sp service_name) | None \<Rightarrow> None)"

section \<open>Tag transform of the awscommunity module\<close>

fun get_tags_from_model_tags :: "Tag list \<Rightarrow> pyexc + string list" where
  "get_tags_from_model_tags [] = Inr []"
| "get_tags_from_model_tags (model_tag # rest) =
     (case Key model_tag of
        None \<Rightarrow> Inl (TypeError ''unsupported operand type(s) for +: NoneType and str'')
      | Some k \<Rightarrow>
          (case Value model_tag of
             None \<Rightarrow> Inl (TypeError ''can only concatenate str (not NoneType) to str'')
           | Some v \<Rightarrow>
               (case get_tags_from_model_tags rest of
                  Inl e \<Rightarrow> Inl e
                | Inr tags \<Rightarrow> Inr ((k @ ''='' @ v) # tags))))"

definition get_model_tags_from_tags :: "pydict list \<Rightarrow> Tag list" where
  "get_model_tags_from_tags tags =
     map (\<lambda>tag. \<lparr>Key = map_of tag ''Key'', Value = map_of tag ''Value''\<rparr>) tags"

text \<open>
  \<^verbatim>\<open>_get_tags_from_desired_resource_tags\<close> never assigns its local variable \<^verbatim>\<open>tags\<close>
  before the loop. The accumulator of the loop is therefore an option: \<open>None\<close> is the
  unbound variable, and reading it raises \<^verbatim>\<open>UnboundLocalError\<close>.
\<close>

fun desired_resource_tags_loop ::
  "(string \<times> string) list \<Rightarrow> string list option \<Rightarrow> pyexc + string list option" where
  "desired_resource_tags_loop [] tags = Inr tags"
| "desired_resource_tags_loop ((desired_resource_tag, v) # rest) tags =
     (case tags of
        None \<Rightarrow> Inl (UnboundLocalError ''tags'')
      | Some acc \<Rightarrow>
          desired_resource_tags_loop rest (Some (acc @ [desired_resource_tag @ ''='' @ v])))"

definition get_tags_from_desired_resource_tags ::
  "(string \<times> string) list \<Rightarrow> pyexc + string list" where
  "get_tags_from_desired_resource_tags desired_resource_tags =
     (case desired_resource_tags_loop desired_resource_tags None of
        Inl e \<Rightarrow> Inl e
      | Inr None \<Rightarrow> Inl (UnboundLocalError ''tags'')
      | Inr (Some tags) \<Rightarrow> Inr tags)"

definition build_tag_list ::
  "ResourceModel option \<Rightarrow> ResourceHandlerRequest \<Rightarrow> pyexc + string list" where
  "build_tag_list model request =
     (let tags = [] in
      case (case desiredResourceTags request of
              Some (d # ds) \<Rightarrow>
                (case get_tags_from_desired_resource_tags (d # ds) of
                   Inl e \<Rightarrow> Inl e
                 | Inr desired_resource_tags \<Rightarrow> Inr (tags @ desired_resource_tags))
            | _ \<Rightarrow> Inr tags) of
        Inl e \<Rightarrow> Inl e
      | Inr tags \<Rightarrow>
          (case model of
             Some m \<Rightarrow>
               (case Tags m of
                  Some (t # ts) \<Rightarrow>
                    (case get_tags_from_model_tags (t # ts) of
                       Inl e \<Rightarrow> Inl e
                     | Inr model_tags \<Rightarrow> Inr (tags @ model_tags))
                | _ \<Rightarrow> Inr tags)
           | None \<Rightarrow> Inr tags))"

text \<open>\<^verbatim>\<open>'&'.join(...)\<close>\<close>

fun join_amp :: "string list \<Rightarrow> string" where
  "join_amp [] = []"
| "join_amp [x] = x"
| "join_amp (x # y # rest) = x @ ''&'' @ join_amp (y # rest)"

section \<open>Handlers of the awscommunity module\<close>

definition dict_get :: "pydict \<Rightarrow> string \<Rightarrow> pyexc + string" where
  "dict_get d k = (case map_of d k of None \<Rightarrow> Inl (KeyError k) | Some v \<Rightarrow> Inr v)"

text \<open>
  \<^verbatim>\<open>_upload_s3_helper\<close>: the local \<^verbatim>\<open>put_object_param\<close> is bound only when the model has
  a bucket, a key and contents, so it is an option here and its use when unbound raises.
\<close>

definition upload_s3_helper ::
  "ResourceModel option \<Rightarrow> ResourceHandlerRequest \<Rightarrow> pyexc + pydict" where
  "upload_s3_helper model request =
     (let put_object_param =
            (case model of
               None \<Rightarrow> None
             | Some m \<Rightarrow>
                 (case (BucketName m, ObjectKey m, ObjectContents m) of
                    (Some b, Some k, Some c) \<Rightarrow>
                      if b \<noteq> [] \<and> k \<noteq> [] \<and> c \<noteq> []
                      then Some [(''Bucket'', b), (''Key'', k), (''Body'', c)]
                      else None
                  | _ \<Rightarrow> None))
      in case (case model of None \<Rightarrow> None | Some m \<Rightarrow> Tags m) of
           Some (t # ts) \<Rightarrow>
             (case build_tag_list model request of
                Inl e \<Rightarrow> Inl e
              | Inr tags \<Rightarrow>
                  (let tag_entry = join_amp tags in
                   case put_object_param of
                     None \<Rightarrow> Inl (UnboundLocalError ''put_object_param'')
                   | Some param \<Rightarrow> Inr (param @ [(''Tags'', tag_entry)])))
         | _ \<Rightarrow>
             (case put_object_param of
                None \<Rightarrow> Inl (UnboundLocalError ''put_object_param'')
              | Some param \<Rightarrow> Inr param))"

definition put_object ::
  "pydict \<Rightarrow> 's s3_client option \<Rightarrow> 's \<Rightarrow> (pyexc + bool) \<times> 's" where
  "put_object s3_params client s =
     (case client of
        None \<Rightarrow> (Inl (AttributeError ''NoneType object has no attribute put_object''), s)
      | Some c \<Rightarrow>
          (case (dict_get s3_params ''Bucket'', dict_get s3_params ''Key'',
                 dict_get s3_params ''Body'') of
             (Inr b, Inr k, Inr body) \<Rightarrow>
               (case client_put_object c b k body (map_of s3_params ''Tags'') s of
                  (Inl e, s') \<Rightarrow> (Inl e, s')
                | (Inr response, s') \<Rightarrow> (Inr (response \<noteq> None), s'))
           | (Inl e, _, _) \<Rightarrow> (Inl e, s)
           | (_, Inl e, _) \<Rightarrow> (Inl e, s)
           | (_, _, Inl e) \<Rightarrow> (Inl e, s)))"

text \<open>
  \<^verbatim>\<open>read_handler\<close>. The body of its \<^verbatim>\<open>try\<close> comes first. The locals
  \<^verbatim>\<open>model_object_key\<close> and \<^verbatim>\<open>model_bucket_name\<close> start as the empty string.
\<close>

definition read_handler_try ::
  "'s SessionProxy option \<Rightarrow> addr option \<Rightarrow> heap \<Rightarrow> 's \<Rightarrow> (pyexc + unit) \<times> heap \<times> 's" where
  "read_handler_try session model h s =
     (let model_object_key =
            (case model of
               Some a \<Rightarrow> or_empty (ObjectKey (h a))
             | None \<Rightarrow> []);
          model_bucket_name =
            (case model of
               Some a \<Rightarrow> or_empty (BucketName (h a))
             | None \<Rightarrow> []);
          client = get_session_client session ''s3''
      in case client of
           None \<Rightarrow> (Inl (AttributeError ''NoneType object has no attribute get_object''), h, s)
         | Some c \<Rightarrow>
             (case client_get_object c model_bucket_name model_object_key s of
                (Inl e, s1) \<Rightarrow> (Inl e, h, s1)
              | (Inr object_body_contents, s1) \<Rightarrow>
                  (case model of
                     None \<Rightarrow>
                       (Inl (AttributeError ''NoneType object has no attribute ObjectArn''), h, s1)
                   | Some a \<Rightarrow>
                       (let h1 = h(a := (h a)\<lparr>ObjectContents := Some object_body_contents\<rparr>);
                            h2 = h1(a := (h1 a)\<lparr>ObjectArn :=
                                   Some (''arn:aws:s3:::'' @ model_bucket_name @ ''/''
                                           @ model_object_key)\<rparr>)
                        in case client_get_object_tagging c model_bucket_name model_object_key s1 of
                             (Inl e, s2) \<Rightarrow> (Inl e, h2, s2)
                           | (Inr tag_set, s2) \<Rightarrow>
                               (Inr (),
                                h2(a := (h2 a)\<lparr>Tags := Some (get_model_tags_from_tags tag_set)\<rparr>),
                                s2)))))"

text \<open>
  The \<^verbatim>\<open>except\<close> clauses of \<^verbatim>\<open>read_handler\<close> are tried in order. A \<^verbatim>\<open>ClientError\<close>
  is taken by the first. For any other exception Python evaluates the expression of the
  second clause, \<^verbatim>\<open>botocore.exceptions.GeneralServiceException\<close>; botocore defines no such
  name, so this evaluation raises \<^verbatim>\<open>AttributeError\<close>, which leaves the handler: the
  third clause (\<^verbatim>\<open>except Exception\<close>) is never reached.
\<close>

definition read_handler ::
  "'s SessionProxy option \<Rightarrow> ResourceHandlerRequest \<Rightarrow> callback_context \<Rightarrow> heap \<Rightarrow> 's
     \<Rightarrow> (pyexc + ProgressEvent) \<times> heap \<times> 's" where
  "read_handler session request callback_context h s =
     (let model = desiredResourceState request in
      case read_handler_try session model h s of
        (Inl (ClientError code text), h', s') \<Rightarrow>
          (Inr (progress_event_failed (get_handler_error_code code) text), h', s')
      | (Inl _, h', s') \<Rightarrow>
          (Inl (AttributeError
             ''module botocore.exceptions has no attribute GeneralServiceException''), h', s')
      | (Inr _, h', s') \<Rightarrow> (progress_event_success model None False False, h', s'))"

definition to_result :: "pyexc + ProgressEvent \<Rightarrow> py_result" where
  "to_result r = (case r of Inl e \<Rightarrow> Raised e | Inr ev \<Rightarrow> Event ev)"

definition callback_helper ::
  "'s SessionProxy option \<Rightarrow> ResourceHandlerRequest \<Rightarrow> callback_context \<Rightarrow> addr option
     \<Rightarrow> bool \<Rightarrow> heap \<Rightarrow> 's \<Rightarrow> py_result \<times> heap \<times> 's" where
  "callback_helper session request callback_context model is_delete_handler h s =
     (case read_handler session request callback_context h s of
        (Inl e, h', s') \<Rightarrow> (Raised e, h', s')
      | (Inr rh, h', s') \<Rightarrow>
          (if status rh = SUCCESS
           then (to_result (progress_event_success model None False False), h', s')
           else if errorCode rh \<noteq> None
           then (if errorCode rh = Some NotFound \<and> is_delete_handler
                 then (to_result (progress_event_success None None True False), h', s')
                 else if errorCode rh = Some NotFound
                 then (Event (progress_event_failed NotFound (message rh)), h', s')
                 else (NoneReturned, h', s'))
           else (Event (progress_event_callback model), h', s')))"

text \<open>
  \<^verbatim>\<open>create_handler\<close> and \<^verbatim>\<open>update_handler\<close>: the body of the \<^verbatim>\<open>try\<close>, then the
  handler with its \<^verbatim>\<open>except\<close> clauses. The unused local \<^verbatim>\<open>progress\<close> is left out.
\<close>

definition create_handler_try ::
  "'s SessionProxy option \<Rightarrow> ResourceHandlerRequest \<Rightarrow> addr option \<Rightarrow> heap \<Rightarrow> 's
     \<Rightarrow> (pyexc + unit) \<times> heap \<times> 's" where
  "create_handler_try session request model h s =
     (let client = get_session_client session ''s3'' in
      case upload_s3_helper (map_option h model) request of
        Inl e \<Rightarrow> (Inl e, h, s)
      | Inr s3_params \<Rightarrow>
          (case put_object s3_params client s of
             (Inl e, s') \<Rightarrow> (Inl e, h, s')
           | (Inr is_uploaded, s') \<Rightarrow>
               if \<not> is_uploaded then (Inl (GenericException ''File Failed to upload''), h, s')
               else (case model of
                       None \<Rightarrow>
                         (Inl (AttributeError ''NoneType object has no attribute BucketName''),
                          h, s')
                     | Some a \<Rightarrow>
                         (Inr (),
                          h(a := (h a)\<lparr>ObjectArn :=
                                 Some (''arn:aws:s3:::'' @ py_format (BucketName (h a)) @ ''/''
                                         @ py_format (ObjectKey (h a)))\<rparr>),
                          s'))))"

definition create_handler ::
  "'s SessionProxy option \<Rightarrow> ResourceHandlerRequest \<Rightarrow> callback_context \<Rightarrow> heap \<Rightarrow> 's
     \<Rightarrow> py_result \<times> heap \<times> 's" where
  "create_handler session request callback_context h s =
     (let model = desiredResourceState request in
      if is_callback callback_context
      then callback_helper session request callback_context model False h s
      else (case create_handler_try session request model h s of
              (Inl (ClientError code text), h', s') \<Rightarrow>
                (Event (progress_event_failed (get_handler_error_code code) text), h', s')
            | (Inl e, h', s') \<Rightarrow>
                (Event (progress_event_failed InternalFailure (exc_str e)), h', s')
            | (Inr _, h', s') \<Rightarrow> (Event (progress_event_callback model), h', s')))"

definition update_handler_try ::
  "'s SessionProxy option \<Rightarrow> ResourceHandlerRequest \<Rightarrow> addr option \<Rightarrow> heap \<Rightarrow> 's
     \<Rightarrow> (pyexc + unit) \<times> heap \<times> 's" where
  "update_handler_try session request model h s =
     (let client = get_session_client session ''s3'' in
      case upload_s3_helper (map_option h model) request of
        Inl e \<Rightarrow> (Inl e, h, s)
      | Inr s3_params \<Rightarrow>
          (case put_object s3_params client s of
             (Inl e, s') \<Rightarrow> (Inl e, h, s')
           | (Inr is_uploaded, s') \<Rightarrow>
               if \<not> is_uploaded then (Inl (GenericException ''File Failed to upload''), h, s')
               else (case model of
                       None \<Rightarrow>
                         (Inl (AttributeError ''NoneType object has no attribute BucketName''),
                          h, s')
                     | Some a \<Rightarrow>
                         (Inr (),
                          h(a := (h a)\<lparr>ObjectArn :=
                                 Some (''arn:aws:s3:::'' @ py_format (BucketName (h a)) @ ''/''
                                         @ py_format (ObjectKey (h a)))\<rparr>),
                          s'))))"

definition update_handler ::
  "'s SessionProxy option \<Rightarrow> ResourceHandlerRequest \<Rightarrow> callback_context \<Rightarrow> heap \<Rightarrow> 's
     \<Rightarrow> py_result \<times> heap \<times> 's" where
  "update_handler session request callback_context h s =
     (let model = desiredResourceState request in
      if is_callback callback_context
      then callback_helper session request callback_context model False h s
      else (case update_handler_try session request model h s of
              (Inl (ClientError code text), h', s') \<Rightarrow>
                (Event (progress_event_failed (get_handler_error_code code) text), h', s')
            | (Inl e, h', s') \<Rightarrow>
                (Event (progress_event_failed InternalFailure (exc_str e)), h', s')
            | (Inr _, h', s') \<Rightarrow> (Event (progress_event_callback model), h', s')))"

text \<open>
  \<^verbatim>\<open>delete_handler\<close>. The locals \<^verbatim>\<open>model_bucket_name\<close> and \<^verbatim>\<open>model_object_key\<close> are
  bound only under a condition (\<open>None\<close>: unbound). The \<^verbatim>\<open>try\<close> body yields \<open>Some ev\<close>
  when it returns \<open>ev\<close> itself and \<open>None\<close> when it runs to its end.
\<close>

definition delete_handler_try ::
  "'s SessionProxy option \<Rightarrow> ResourceHandlerRequest \<Rightarrow> callback_context \<Rightarrow> addr option
     \<Rightarrow> heap \<Rightarrow> 's \<Rightarrow> (pyexc + ProgressEvent option) \<times> heap \<times> 's" where
  "delete_handler_try session request callback_context model h s =
     (let model_bucket_name =
            (case model of
               Some a \<Rightarrow> (if truthy (BucketName (h a)) then BucketName (h a) else None)
             | None \<Rightarrow> None);
          model_object_key =
            (case model of
               Some a \<Rightarrow> (if truthy (ObjectKey (h a)) then ObjectKey (h a) else None)
             | None \<Rightarrow> None);
          client = get_session_client session ''s3''
      in case read_handler session request callback_context h s of
           (Inl e, h1, s1) \<Rightarrow> (Inl e, h1, s1)
         | (Inr rh, h1, s1) \<Rightarrow>
             if errorCode rh \<noteq> None \<and> errorCode rh = Some NotFound
             then (Inr (Some (progress_event_failed NotFound (message rh))), h1, s1)
             else (case model of
                     None \<Rightarrow> (Inr None, h1, s1)
                   | Some a \<Rightarrow>
                       (case client of
                          None \<Rightarrow>
                            (Inl (AttributeError
                               ''NoneType object has no attribute delete_object''), h1, s1)
                        | Some c \<Rightarrow>
                            (case model_bucket_name of
                               None \<Rightarrow> (Inl (UnboundLocalError ''model_bucket_name''), h1, s1)
                             | Some b \<Rightarrow>
                                 (case model_object_key of
                                    None \<Rightarrow>
                                      (Inl (UnboundLocalError ''model_object_key''), h1, s1)
                                  | Some k \<Rightarrow>
                                      (case client_delete_object c b k s1 of
                                         (Inl e, s2) \<Rightarrow> (Inl e, h1, s2)
                                       | (Inr _, s2) \<Rightarrow> (Inr None, h1, s2)))))))"

definition delete_handler ::
  "'s SessionProxy option \<Rightarrow> ResourceHandlerRequest \<Rightarrow> callback_context \<Rightarrow> heap \<Rightarrow> 's
     \<Rightarrow> py_result \<times> heap \<times> 's" where
  "delete_handler session request callback_context h s =
     (let model = desiredResourceState request in
      if is_callback callback_context
      then callback_helper session request callback_context model True h s
      else (case delete_handler_try session request callback_context model h s of
              (Inl (ClientError code text), h', s') \<Rightarrow>
                (Event (progress_event_failed (get_handler_error_code code) text), h', s')
            | (Inl e, h', s') \<Rightarrow>
                (Event (progress_event_failed InternalFailure (exc_str e)), h', s')
            | (Inr (Some ev), h', s') \<Rightarrow> (Event ev, h', s')
            | (Inr None, h', s') \<Rightarrow>
                (to_result (progress_event_success None None True False), h', s')))"

text \<open>\<^verbatim>\<open>list_handler\<close>: the list comprehension over \<^verbatim>\<open>response['Contents']\<close>, then the handler.\<close>

fun list_models :: "string \<Rightarrow> pydict list \<Rightarrow> pyexc + ResourceModel list" where
  "list_models model_bucket_name [] = Inr []"
| "list_models model_bucket_name (content # rest) =
     (case map_of content ''Key'' of
        None \<Rightarrow> Inl (KeyError ''Key'')
      | Some k \<Rightarrow>
          (case list_models model_bucket_name rest of
             Inl e \<Rightarrow> Inl e
           | Inr models \<Rightarrow>
               Inr (\<lparr>BucketName = Some model_bucket_name,
                     ObjectKey = Some k,
                     ObjectContents = None,
                     ObjectArn = Some (''arn:aws:s3:::'' @ model_bucket_name @ ''/'' @ k),
                     Tags = None\<rparr> # models)))"

definition list_handler_try ::
  "'s SessionProxy option \<Rightarrow> addr option \<Rightarrow> heap \<Rightarrow> 's
     \<Rightarrow> (pyexc + ResourceModel list) \<times> 's" where
  "list_handler_try session model h s =
     (let model_bucket_name =
            (case model of
               Some a \<Rightarrow> (if truthy (BucketName (h a)) then BucketName (h a) else None)
             | None \<Rightarrow> None);
          client = get_session_client session ''s3''
      in case client of
           None \<Rightarrow> (Inl (AttributeError ''NoneType object has no attribute list_objects_v2''), s)
         | Some c \<Rightarrow>
             (case model_bucket_name of
                None \<Rightarrow> (Inl (UnboundLocalError ''model_bucket_name''), s)
              | Some b \<Rightarrow>
                  (case client_list_objects_v2 c b s of
                     (Inl e, s1) \<Rightarrow> (Inl e, s1)
                   | (Inr None, s1) \<Rightarrow> (Inr [], s1)
                   | (Inr (Some contents), s1) \<Rightarrow> (list_models b contents, s1))))"

definition list_handler ::
  "'s SessionProxy option \<Rightarrow> ResourceHandlerRequest \<Rightarrow> callback_context \<Rightarrow> heap \<Rightarrow> 's
     \<Rightarrow> (pyexc + ProgressEvent) \<times> heap \<times> 's" where
  "list_handler session request callback_context h s =
     (let model = desiredResourceState request in
      case list_handler_try session model h s of
        (Inl (ClientError code text), s') \<Rightarrow>
          (Inr (progress_event_failed (get_handler_error_code code) text), h, s')
      | (Inl e, s') \<Rightarrow> (Inr (progress_event_failed InternalFailure (exc_str e)), h, s')
      | (Inr models, s') \<Rightarrow> (progress_event_success None (Some models) False True, h, s'))"

section \<open>Handlers of the aws module\<close>

text \<open>
  \<^verbatim>\<open>aws_s3_object/handlers.py\<close>. Its \<^verbatim>\<open>_upload_s3_helper\<close> ends without \<^verbatim>\<open>return\<close>
  when the model lacks a bucket, a key or contents, so it yields an optional dictionary;
  its \<^verbatim>\<open>_put_object\<close> looks for \<^verbatim>\<open>VersionId\<close> in the response.
\<close>

definition aws_upload_s3_helper ::
  "ResourceModel option \<Rightarrow> ResourceHandlerRequest \<Rightarrow> pydict option" where
  "aws_upload_s3_helper model request =
     (case model of
        None \<Rightarrow> None
      | Some m \<Rightarrow>
          (case (BucketName m, ObjectKey m, ObjectContents m) of
             (Some b, Some k, Some c) \<Rightarrow>
               if b \<noteq> [] \<and> k \<noteq> [] \<and> c \<noteq> []
               then Some [(''Bucket'', b), (''Key'', k), (''Body'', c)]
               else None
           | _ \<Rightarrow> None))"

definition aws_put_object ::
  "pydict option \<Rightarrow> 's s3_client option \<Rightarrow> 's \<Rightarrow> (pyexc + bool) \<times> 's" where
  "aws_put_object s3_params client s =
     (case client of
        None \<Rightarrow> (Inl (AttributeError ''NoneType object has no attribute put_object''), s)
      | Some c \<Rightarrow>
          (case s3_params of
             None \<Rightarrow> (Inl (TypeError ''NoneType object is not subscriptable''), s)
           | Some params \<Rightarrow>
               (case (dict_get params ''Bucket'', dict_get params ''Key'',
                      dict_get params ''Body'') of
                  (Inr b, Inr k, Inr body) \<Rightarrow>
                    (case client_put_object c b k body None s of
                       (Inl e, s') \<Rightarrow> (Inl e, s')
                     | (Inr None, s') \<Rightarrow>
                         (Inl (TypeError ''argument of type NoneType is not iterable''), s')
                     | (Inr (Some response), s') \<Rightarrow>
                         (if map_of response ''VersionId'' = None
                          then (Inr False, s') else (Inr True, s')))
                | (Inl e, _, _) \<Rightarrow> (Inl e, s)
                | (_, Inl e, _) \<Rightarrow> (Inl e, s)
                | (_, _, Inl e) \<Rightarrow> (Inl e, s))))"

definition aws_read_handler ::
  "'s SessionProxy option \<Rightarrow> ResourceHandlerRequest \<Rightarrow> callback_context \<Rightarrow> heap \<Rightarrow> 's
     \<Rightarrow> (pyexc + ProgressEvent) \<times> heap \<times> 's" where
  "aws_read_handler session request callback_context h s =
     (let model = desiredResourceState request in
      (Inr ((ProgressEvent_default SUCCESS)\<lparr>resourceModel := model\<rparr>), h, s))"

definition aws_callback_helper ::
  "'s SessionProxy option \<Rightarrow> ResourceHandlerRequest \<Rightarrow> callback_context \<Rightarrow> addr option
     \<Rightarrow> bool \<Rightarrow> heap \<Rightarrow> 's \<Rightarrow> py_result \<times> heap \<times> 's" where
  "aws_callback_helper session request callback_context model is_delete_handler h s =
     (case aws_read_handler session request callback_context h s of
        (Inl e, h', s') \<Rightarrow> (Raised e, h', s')
      | (Inr rh, h', s') \<Rightarrow>
          (if status rh = SUCCESS
           then (to_result (progress_event_success model None False False), h', s')
           else if errorCode rh \<noteq> None
           then (if errorCode rh = Some NotFound \<and> is_delete_handler
                 then (to_result (progress_event_success None None True False), h', s')
                 else if errorCode rh = Some NotFound
                 then (Event (progress_event_failed NotFound (message rh)), h', s')
                 else (NoneReturned, h', s'))
           else (Event (progress_event_callback model), h', s')))"

definition aws_create_handler_try ::
  "'s SessionProxy option \<Rightarrow> ResourceHandlerRequest \<Rightarrow> addr option \<Rightarrow> heap \<Rightarrow> 's
     \<Rightarrow> (pyexc + unit) \<times> heap \<times> 's" where
  "aws_create_handler_try session request model h s =
     (let client = get_session_client session ''s3'';
          s3_params = aws_upload_s3_helper (map_option h model) request
      in case aws_put_object s3_params client s of
           (Inl e, s') \<Rightarrow> (Inl e, h, s')
         | (Inr is_uploaded, s') \<Rightarrow>
             if \<not> is_uploaded then (Inl (GenericException ''File Failed to upload''), h, s')
             else (case model of
                     None \<Rightarrow>
                       (Inl (AttributeError ''NoneType object has no attribute BucketName''),
                        h, s')
                   | Some a \<Rightarrow>
                       (Inr (),
                        h(a := (h a)\<lparr>ObjectArn :=
                               Some (''arn:aws:s3:::'' @ py_format (BucketName (h a)) @ ''/''
                                       @ py_format (ObjectKey (h a)))\<rparr>),
                        s')))"

text \<open>
  The only \<^verbatim>\<open>except\<close> clause of the aws module takes a \<^verbatim>\<open>TypeError\<close> and raises
  \<^verbatim>\<open>exceptions.InternalFailure\<close>; every other exception leaves the handler as it is.
\<close>

definition aws_create_handler ::
  "'s SessionProxy option \<Rightarrow> ResourceHandlerRequest \<Rightarrow> callback_context \<Rightarrow> heap \<Rightarrow> 's
     \<Rightarrow> py_result \<times> heap \<times> 's" where
  "aws_create_handler session request callback_context h s =
     (let model = desiredResourceState request in
      if is_callback callback_context
      then aws_callback_helper session request callback_context model False h s
      else (case aws_create_handler_try session request model h s of
              (Inl (TypeError text), h', s') \<Rightarrow>
                (Raised (InternalFailureExc (''was not expecting type '' @ text)), h', s')
            | (Inl e, h', s') \<Rightarrow> (Raised e, h', s')
            | (Inr _, h', s') \<Rightarrow> (Event (progress_event_callback model), h', s')))"

definition aws_update_handler_try ::
  "'s SessionProxy option \<Rightarrow> ResourceHandlerRequest \<Rightarrow> addr option \<Rightarrow> heap \<Rightarrow> 's
     \<Rightarrow> (pyexc + unit) \<times> heap \<times> 's" where
  "aws_update_handler_try session request model h s =
     (let client = get_session_client session ''s3'';
          s3_params = aws_upload_s3_helper (map_option h model) request
      in case aws_put_object s3_params client s of
           (Inl e, s') \<Rightarrow> (Inl e, h, s')
         | (Inr is_uploaded, s') \<Rightarrow>
             if \<not> is_uploaded then (Inl (GenericException ''File Failed to upload''), h, s')
             else (case model of
                     None \<Rightarrow>
                       (Inl (AttributeError ''NoneType object has no attribute BucketName''),
                        h, s')
                   | Some a \<Rightarrow>
                       (Inr (),
                        h(a := (h a)\<lparr>ObjectArn :=
                               Some (''arn:aws:s3:::'' @ py_format (BucketName (h a)) @ ''/''
                                       @ py_format (ObjectKey (h a)))\<rparr>),
                        s')))"

text \<open>
  \<^verbatim>\<open>update_handler\<close> of the aws module tests \<^verbatim>\<open>not _is_callback(callback_context)\<close>
  and ends with \<^verbatim>\<open>return read_handler(...)\<close>.
\<close>

definition aws_update_handler ::
  "'s SessionProxy option \<Rightarrow> ResourceHandlerRequest \<Rightarrow> callback_context \<Rightarrow> heap \<Rightarrow> 's
     \<Rightarrow> py_result \<times> heap \<times> 's" where
  "aws_update_handler session request callback_context h s =
     (let model = desiredResourceState request in
      if \<not> is_callback callback_context
      then aws_callback_helper session request callback_context model False h s
      else (case aws_update_handler_try session request model h s of
              (Inl (TypeError text), h', s') \<Rightarrow>
                (Raised (InternalFailureExc (''was not expecting type '' @ text)), h', s')
            | (Inl e, h', s') \<Rightarrow> (Raised e, h', s')
            | (Inr _, h', s') \<Rightarrow>
                (case aws_read_handler session request callback_context h' s' of
                   (r, h'', s'') \<Rightarrow> (to_result r, h'', s''))))"

definition aws_delete_handler ::
  "'s SessionProxy option \<Rightarrow> ResourceHandlerRequest \<Rightarrow> callback_context \<Rightarrow> heap \<Rightarrow> 's
     \<Rightarrow> py_result \<times> heap \<times> 's" where
  "aws_delete_handler session request callback_context h s =
     (Event (ProgressEvent_default IN_PROGRESS), h, s)"

definition aws_list_handler ::
  "'s SessionProxy option \<Rightarrow> ResourceHandlerRequest \<Rightarrow> callback_context \<Rightarrow> heap \<Rightarrow> 's
     \<Rightarrow> (pyexc + ProgressEvent) \<times> heap \<times> 's" where
  "aws_list_handler session request callback_context h s =
     (Inr ((ProgressEvent_default SUCCESS)\<lparr>resourceModels := Some []\<rparr>), h, s)"

section \<open>An in-memory backend for concrete runs\<close>

text \<open>
  A small store of objects, \<open>((bucket, key), contents)\<close>, with a client over it. The
  flag \<open>versioned\<close> says whether the acknowledgment of a write carries a
  \<^verbatim>\<open>VersionId\<close>. Reading or tagging a missing object fails with the backend's
  \<^verbatim>\<open>NoSuchKey\<close> error.
\<close>

type_synonym store = "((string \<times> string) \<times> string) list"

definition no_such_key :: pyexc where
  "no_such_key = ClientError ''NoSuchKey'' ''The specified key does not exist.''"

definition store_client :: "bool \<Rightarrow> store s3_client" where
  "store_client versioned =
     \<lparr>client_put_object = (\<lambda>b k body tagging st.
          (Inr (Some (if versioned then [(''ETag'', ''e1''), (''VersionId'', ''v1'')]
                      else [(''ETag'', ''e1'')])),
           ((b, k), body) # filter (\<lambda>entry. fst entry \<noteq> (b, k)) st)),
      client_get_object = (\<lambda>b k st.
          (case map_of st (b, k) of None \<Rightarrow> Inl no_such_key | Some body \<Rightarrow> Inr body, st)),
      client_get_object_tagging = (\<lambda>b k st.
          (case map_of st (b, k) of None \<Rightarrow> Inl no_such_key | Some body \<Rightarrow> Inr [], st)),
      client_delete_object = (\<lambda>b k st. (Inr (), filter (\<lambda>entry. fst entry \<noteq> (b, k)) st)),
      client_list_objects_v2 = (\<lambda>b st.
          (case filter (\<lambda>entry. fst (fst entry) = b) st of
             [] \<Rightarrow> Inr None
           | es \<Rightarrow> Inr (Some (map (\<lambda>entry. [(''Key'', snd (fst entry))]) es)), st))\<rparr>"

definition store_session :: "bool \<Rightarrow> store SessionProxy option" where
  "store_session versioned = Some (SessionProxy (\<lambda>service_name. store_client versioned))"

definition blank_model :: ResourceModel where
  "blank_model =
     \<lparr>BucketName = None, ObjectKey = None, ObjectContents = None, ObjectArn = None,
      Tags = None\<rparr>"

definition demo_heap :: heap where
  "demo_heap =
     (\<lambda>a. blank_model)
       (0 := \<lparr>BucketName = Some ''b'', ObjectKey = Some ''k'', ObjectContents = Some ''hi'',
              ObjectArn = None, Tags = None\<rparr>)"

definition demo_request :: ResourceHandlerRequest where
  "demo_request = \<lparr>desiredResourceState = Some 0, desiredResourceTags = None\<rparr>"

text \<open>The same backend, except that every read of an object fails with the exception \<open>e\<close>.\<close>

definition failing_session :: "pyexc \<Rightarrow> store SessionProxy option" where
  "failing_session e =
     Some (SessionProxy (\<lambda>service_name.
       (store_client True)\<lparr>client_get_object := (\<lambda>b k st. (Inl e, st))\<rparr>))"

text \<open>The same backend, except that every object carries the tag set \<open>tag_set\<close>.\<close>

definition tagging_session :: "pydict list \<Rightarrow> store SessionProxy option" where
  "tagging_session tag_set =
     Some (SessionProxy (\<lambda>service_name.
       (store_client True)\<lparr>client_get_object_tagging := (\<lambda>b k st. (Inr tag_set, st))\<rparr>))"

definition tagged_model :: ResourceModel where
  "tagged_model =
     \<lparr>BucketName = Some ''b'', ObjectKey = Some ''k'', ObjectContents = Some ''hi'',
      ObjectArn = None, Tags = Some [\<lparr>Key = Some ''team'', Value = Some ''infra''\<rparr>]\<rparr>"

definition tagged_request :: ResourceHandlerRequest where
  "tagged_request =
     \<lparr>desiredResourceState = Some 0, desiredResourceTags = Some [(''env'', ''prod'')]\<rparr>"

section \<open>Vocabulary of the properties\<close>

definition result_status :: "py_result \<Rightarrow> OperationStatus option" where
  "result_status r = (case r of Event ev \<Rightarrow> Some (status ev) | _ \<Rightarrow> None)"

text \<open>The derived identifier as the specification writes it.\<close>

definition spec_object_arn :: "string \<Rightarrow> string \<Rightarrow> string" where
  "spec_object_arn bucket key = ''arn:aws:s3:::'' @ bucket @ ''/'' @ key"

text \<open>
  A model's identifier matches when it is the derived identifier of the model's own bucket
  name and key. A field that is absent or empty contributes the empty string, as the
  locals of \<^verbatim>\<open>read_handler\<close> do; with both fields present this is exactly
  \<^verbatim>\<open>arn:aws:s3:::<BucketName>/<ObjectKey>\<close>.
\<close>

definition arn_matches :: "ResourceModel \<Rightarrow> bool" where
  "arn_matches m =
     (ObjectArn m = Some (spec_object_arn (or_empty (BucketName m)) (or_empty (ObjectKey m))))"

section \<open>Unfolding facts\<close>

lemmas event_defs =
  progress_event_failed_def ProgressEvent_failed_def ProgressEvent_default_def
  progress_event_success_def progress_event_callback_def

lemmas run_defs =
  create_handler_def create_handler_try_def update_handler_def update_handler_try_def
  delete_handler_def delete_handler_try_def read_handler_def read_handler_try_def
  list_handler_def list_handler_try_def callback_helper_def
  aws_create_handler_def aws_create_handler_try_def aws_update_handler_def
  aws_update_handler_try_def aws_read_handler_def aws_callback_helper_def
  aws_list_handler_def aws_delete_handler_def
  upload_s3_helper_def aws_upload_s3_helper_def put_object_def aws_put_object_def
  build_tag_list_def get_tags_from_desired_resource_tags_def get_model_tags_from_tags_def
  get_session_client_def get_handler_error_code_def is_callback_def dict_get_def
  to_result_def truthy_def or_empty_def py_format_def
  CALLBACK_STATUS_IN_PROGRESS_def CALLBACK_DELAY_SECONDS_def
  store_client_def store_session_def failing_session_def tagging_session_def
  no_such_key_def
  demo_heap_def demo_request_def blank_model_def tagged_model_def tagged_request_def
  result_status_def spec_object_arn_def arn_matches_def Let_def

section \<open>The read handler\<close>

lemma read_handler_success_shape:
  assumes "read_handler session request callback_context h s = (Inr ev, h', s')"
    and "status ev = SUCCESS"
  shows "\<exists>sp a body s1 tag_set.
           session = Some sp \<and> desiredResourceState request = Some a
         \<and> ev = (ProgressEvent_default SUCCESS)\<lparr>resourceModel := Some a\<rparr>
         \<and> client_get_object (session_client sp ''s3'')
               (or_empty (BucketName (h a))) (or_empty (ObjectKey (h a))) s = (Inr body, s1)
         \<and> client_get_object_tagging (session_client sp ''s3'')
               (or_empty (BucketName (h a))) (or_empty (ObjectKey (h a))) s1 = (Inr tag_set, s')
         \<and> h' = h(a := (h a)\<lparr>ObjectContents := Some body,
                     ObjectArn := Some (''arn:aws:s3:::'' @ or_empty (BucketName (h a)) @ ''/''
                                          @ or_empty (ObjectKey (h a))),
                     Tags := Some (get_model_tags_from_tags tag_set)\<rparr>)"
  using assms
  unfolding read_handler_def read_handler_try_def get_session_client_def
  by (auto simp: Let_def event_defs
           split: prod.splits sum.splits option.splits pyexc.splits if_splits)


lemma read_handler_error_not_success:
  assumes "read_handler session request callback_context h s = (Inr ev, h', s')"
    and "errorCode ev = Some code"
  shows "status ev \<noteq> SUCCESS"
proof
  assume "status ev = SUCCESS"
  from read_handler_success_shape [OF assms(1) this]
  have "errorCode ev = None" by (auto simp: ProgressEvent_default_def)
  with assms(2) show False by simp
qed





section \<open>The callback helper\<close>

lemma callback_helper_not_found:
  assumes "read_handler session request callback_context h s = (Inr rh, h', s')"
    and "errorCode rh = Some NotFound"
  shows "callback_helper session request callback_context model False h s =
           (Event (progress_event_failed NotFound (message rh)), h', s')"
    and "callback_helper session request callback_context model True h s =
           (Event (ProgressEvent_default SUCCESS), h', s')"
  using assms read_handler_error_not_success [OF assms]
  by (simp_all add: callback_helper_def to_result_def progress_event_success_def)

lemma callback_helper_other_error:
  assumes "read_handler session request callback_context h s = (Inr rh, h', s')"
    and "errorCode rh = Some code" and "code \<noteq> NotFound"
  shows "callback_helper session request callback_context model is_delete_handler h s =
           (NoneReturned, h', s')"
  using assms read_handler_error_not_success [OF assms(1,2)]
  by (simp add: callback_helper_def)





section \<open>The write of create and update\<close>

lemma upload_s3_helper_Inr:
  assumes "upload_s3_helper (Some m) request = Inr params"
  shows "\<exists>b k c. BucketName m = Some b \<and> b \<noteq> [] \<and> ObjectKey m = Some k \<and> k \<noteq> []
           \<and> ObjectContents m = Some c \<and> c \<noteq> []
           \<and> map_of params ''Bucket'' = Some b \<and> map_of params ''Key'' = Some k
           \<and> map_of params ''Body'' = Some c"
  using assms
  by (auto simp: upload_s3_helper_def Let_def
           split: option.splits list.splits sum.splits if_splits)

lemma aws_upload_s3_helper_Some:
  assumes "aws_upload_s3_helper model request = Some params"
  shows "\<exists>m b k c. model = Some m \<and> BucketName m = Some b \<and> b \<noteq> []
           \<and> ObjectKey m = Some k \<and> k \<noteq> [] \<and> ObjectContents m = Some c \<and> c \<noteq> []
           \<and> params = [(''Bucket'', b), (''Key'', k), (''Body'', c)]"
  using assms
  by (auto simp: aws_upload_s3_helper_def split: option.splits if_splits)

lemma upload_s3_helper_aws:
  assumes "upload_s3_helper (Some m) request = Inr params"
    and "BucketName m = Some b" and "ObjectKey m = Some k" and "ObjectContents m = Some c"
  shows "aws_upload_s3_helper (Some m) request = Some [(''Bucket'', b), (''Key'', k), (''Body'', c)]"
  using upload_s3_helper_Inr [OF assms(1)] assms(2-4)
  by (auto simp: aws_upload_s3_helper_def)

lemma update_handler_try_eq: "update_handler_try = create_handler_try"
  by (intro ext) (simp add: update_handler_try_def create_handler_try_def)


lemma create_handler_try_put:
  assumes "session = Some sp"
    and "upload_s3_helper (Some (h a)) request = Inr params"
    and "BucketName (h a) = Some b" and "ObjectKey (h a) = Some k"
    and "ObjectContents (h a) = Some body"
    and "client_put_object (session_client sp ''s3'') b k body (map_of params ''Tags'') s
           = (Inr (Some ack), s')"
  shows "create_handler_try session request (Some a) h s =
           (Inr (), h(a := (h a)\<lparr>ObjectArn := Some (spec_object_arn b k)\<rparr>), s')"
  using assms upload_s3_helper_Inr [OF assms(2)]
  by (auto simp: create_handler_try_def put_object_def dict_get_def get_session_client_def
                 py_format_def spec_object_arn_def)

lemma aws_create_handler_try_put:
  assumes "session = Some sp"
    and "aws_upload_s3_helper (Some (h a)) request = Some params"
    and "BucketName (h a) = Some b" and "ObjectKey (h a) = Some k"
    and "ObjectContents (h a) = Some body"
    and "client_put_object (session_client sp ''s3'') b k body None s = (Inr (Some ack), s')"
  shows "aws_create_handler_try session request (Some a) h s =
           (if map_of ack ''VersionId'' = None
            then (Inl (GenericException ''File Failed to upload''), h, s')
            else (Inr (), h(a := (h a)\<lparr>ObjectArn := Some (spec_object_arn b k)\<rparr>), s'))"
  using assms aws_upload_s3_helper_Some [OF assms(2)]
  by (auto simp: aws_create_handler_try_def aws_put_object_def dict_get_def
                 get_session_client_def py_format_def spec_object_arn_def)




lemma update_handler_eq: "update_handler = create_handler"
  unfolding update_handler_def create_handler_def update_handler_try_eq
  by (rule refl)


section \<open>Error classifier\<close>

text \<open>
  Claim C5. The error classifier is a total function from backend error-code strings to
  the fixed taxonomy: \<^verbatim>\<open>NoSuchKey\<close> maps to \<open>NotFound\<close>, \<^verbatim>\<open>RequestLimitExceeded\<close> maps
  to \<open>Throttling\<close>, each of the eight parameter and validation codes maps to
  \<open>InvalidRequest\<close>, and every other code string maps to \<open>GeneralServiceException\<close>.
  The classifier never yields \<open>InternalFailure\<close>.
\<close>

theorem get_handler_error_code_total:
  "get_handler_error_code ''NoSuchKey'' = NotFound
   \<and> get_handler_error_code ''RequestLimitExceeded'' = Throttling
   \<and> (c \<in> {''InvalidParameter'', ''InvalidParameterCombination'', ''InvalidParameterValue'',
            ''InvalidTagKey.Malformed'', ''MissingAction'', ''MissingParameter'',
            ''UnknownParameter'', ''ValidationError''}
        \<longrightarrow> get_handler_error_code c = InvalidRequest)
   \<and> (d \<notin> {''NoSuchKey'', ''RequestLimitExceeded'', ''InvalidParameter'',
            ''InvalidParameterCombination'', ''InvalidParameterValue'',
            ''InvalidTagKey.Malformed'', ''MissingAction'', ''MissingParameter'',
            ''UnknownParameter'', ''ValidationError''}
        \<longrightarrow> get_handler_error_code d = GeneralServiceException)
   \<and> get_handler_error_code x
         \<in> {NotFound, InvalidRequest, Throttling, GeneralServiceException}"
  by (simp add: get_handler_error_code_def)

theorem get_handler_error_code_total_witness:
  "''ValidationError'' \<in> {''InvalidParameter'', ''InvalidParameterCombination'',
       ''InvalidParameterValue'', ''InvalidTagKey.Malformed'', ''MissingAction'',
       ''MissingParameter'', ''UnknownParameter'', ''ValidationError''}
   \<and> get_handler_error_code ''ValidationError'' = InvalidRequest
   \<and> ''TotallyUnknownCode'' \<notin> {''NoSuchKey'', ''RequestLimitExceeded'', ''InvalidParameter'',
       ''InvalidParameterCombination'', ''InvalidParameterValue'', ''InvalidTagKey.Malformed'',
       ''MissingAction'', ''MissingParameter'', ''UnknownParameter'', ''ValidationError''}
   \<and> get_handler_error_code ''TotallyUnknownCode'' = GeneralServiceException"
  using get_handler_error_code_total [of "''ValidationError''" "''TotallyUnknownCode''" "[]"]
  by simp

section \<open>Outcome builder\<close>

text \<open>
  Claim C7. The success constructor raises (a \<^verbatim>\<open>ValueError\<close>, and returns no outcome)
  exactly when it is called with no model, no model list, and neither flag set, and when
  both flags are set; in every other case it returns a SUCCESS outcome whose payload the
  arguments select: nothing for the delete flag, the model list for the list flag, the
  model otherwise. As in the source, a model list counts as not given when it is
  \<^verbatim>\<open>None\<close> or empty.
\<close>

theorem progress_event_success_contract:
  "((model = None \<and> (models = None \<or> models = Some [])
        \<and> \<not> is_delete_handler \<and> \<not> is_list_handler)
      \<or> (is_delete_handler \<and> is_list_handler)
     \<longrightarrow> (\<exists>text. progress_event_success model models is_delete_handler is_list_handler
                   = Inl (ValueError text)))
   \<and> (\<not> ((model = None \<and> (models = None \<or> models = Some [])
            \<and> \<not> is_delete_handler \<and> \<not> is_list_handler)
          \<or> (is_delete_handler \<and> is_list_handler))
     \<longrightarrow> (\<exists>ev. progress_event_success model models is_delete_handler is_list_handler = Inr ev
            \<and> status ev = SUCCESS \<and> errorCode ev = None
            \<and> resourceModel ev = (if is_delete_handler \<or> is_list_handler then None else model)
            \<and> resourceModels ev = (if is_list_handler then models else None)))"
  by (auto simp: progress_event_success_def ProgressEvent_default_def)

theorem progress_event_success_contract_witness:
  "(\<exists>text. progress_event_success None None False False = Inl (ValueError text))
   \<and> (\<exists>text. progress_event_success (Some 0) None True True = Inl (ValueError text))
   \<and> (\<exists>ev. progress_event_success (Some 0) None False False = Inr ev
          \<and> status ev = SUCCESS \<and> resourceModel ev = Some 0 \<and> resourceModels ev = None)
   \<and> (\<exists>ev. progress_event_success None (Some []) False True = Inr ev
          \<and> status ev = SUCCESS \<and> resourceModel ev = None \<and> resourceModels ev = Some [])
   \<and> (\<exists>ev. progress_event_success None None True False = Inr ev
          \<and> status ev = SUCCESS \<and> resourceModel ev = None \<and> resourceModels ev = None)"
  using progress_event_success_contract [of None None False False]
    progress_event_success_contract [of "Some 0" None True True]
    progress_event_success_contract [of "Some 0" None False False]
    progress_event_success_contract [of None "Some []" False True]
    progress_event_success_contract [of None None True False]
  by auto

section \<open>Listing\<close>

text \<open>
  Claim C8. For every list invocation against a bucket whose listing response contains no
  objects (no \<^verbatim>\<open>Contents\<close> key, or an empty \<^verbatim>\<open>Contents\<close>), the handler returns a SUCCESS
  outcome carrying an empty model list, not a FAILED outcome. The stub of the aws module
  returns the same outcome on every input.
\<close>

theorem list_handler_empty_bucket:
  "(session = Some sp \<and> desiredResourceState request = Some a
      \<and> BucketName (h a) = Some b \<and> b \<noteq> []
      \<and> client_list_objects_v2 (session_client sp ''s3'') b s = (Inr contents, s')
      \<and> (contents = None \<or> contents = Some [])
     \<longrightarrow> list_handler session request callback_context h s =
           (Inr ((ProgressEvent_default SUCCESS)\<lparr>resourceModels := Some []\<rparr>), h, s'))
   \<and> aws_list_handler session request callback_context h s =
       (Inr ((ProgressEvent_default SUCCESS)\<lparr>resourceModels := Some []\<rparr>), h, s)"
  by (auto simp: list_handler_def list_handler_try_def get_session_client_def truthy_def
                 progress_event_success_def aws_list_handler_def)

theorem list_handler_empty_bucket_witness:
  "store_session True = Some (SessionProxy (\<lambda>service_name. store_client True))
   \<and> desiredResourceState demo_request = Some 0
   \<and> BucketName (demo_heap 0) = Some ''b'' \<and> ''b'' \<noteq> []
   \<and> client_list_objects_v2 (store_client True) ''b'' [] = (Inr None, [])
   \<and> list_handler (store_session True) demo_request [] demo_heap [] =
       (Inr \<lparr>status = SUCCESS, errorCode = None, message = [], callbackContext = None,
             callbackDelaySeconds = 0, resourceModel = None, resourceModels = Some []\<rparr>,
        demo_heap, [])"
  using list_handler_empty_bucket
    [of "store_session True" "SessionProxy (\<lambda>service_name. store_client True)" demo_request 0
        demo_heap "''b''" "[]" None "[]" "[]"]
  by (simp add: store_session_def store_client_def demo_request_def demo_heap_def
                ProgressEvent_default_def)


section \<open>Read mutates the desired state\<close>

text \<open>
  Claim C10. The read handler mutates the request's \<^verbatim>\<open>desiredResourceState\<close> in place.
  Whenever it returns a SUCCESS outcome, the outcome's model is the very object of the
  request (the same address), and in the store that object has its \<^verbatim>\<open>ObjectContents\<close>,
  \<^verbatim>\<open>ObjectArn\<close> and \<^verbatim>\<open>Tags\<close> overwritten from backend values: the contents are the
  body that get-object returned, and the tags are the tag set that get-object-tagging
  returned, entry by entry and in its order, each entry giving the \<^verbatim>\<open>Key\<close> and the
  \<^verbatim>\<open>Value\<close> of one tag. \<^verbatim>\<open>BucketName\<close> and \<^verbatim>\<open>ObjectKey\<close> are the request's own, and
  every other object is untouched.
\<close>

theorem read_handler_mutates_desired_state:
  assumes "read_handler session request callback_context h s = (Inr ev, h', s')"
    and "status ev = SUCCESS"
  shows "\<exists>sp a body s1 tag_set.
           session = Some sp
         \<and> desiredResourceState request = Some a \<and> resourceModel ev = Some a
         \<and> client_get_object (session_client sp ''s3'')
               (or_empty (BucketName (h a))) (or_empty (ObjectKey (h a))) s = (Inr body, s1)
         \<and> client_get_object_tagging (session_client sp ''s3'')
               (or_empty (BucketName (h a))) (or_empty (ObjectKey (h a))) s1 = (Inr tag_set, s')
         \<and> ObjectContents (h' a) = Some body
         \<and> ObjectArn (h' a) = Some (''arn:aws:s3:::'' @ or_empty (BucketName (h a)) @ ''/''
                                        @ or_empty (ObjectKey (h a)))
         \<and> Tags (h' a) =
             Some (map (\<lambda>tag. \<lparr>Key = map_of tag ''Key'', Value = map_of tag ''Value''\<rparr>) tag_set)
         \<and> BucketName (h' a) = BucketName (h a) \<and> ObjectKey (h' a) = ObjectKey (h a)
         \<and> h' = h(a := h' a)"
proof -
  from read_handler_success_shape [OF assms]
  obtain sp a body s1 tag_set where
    "session = Some sp" "desiredResourceState request = Some a"
    "ev = (ProgressEvent_default SUCCESS)\<lparr>resourceModel := Some a\<rparr>"
    "client_get_object (session_client sp ''s3'')
       (or_empty (BucketName (h a))) (or_empty (ObjectKey (h a))) s = (Inr body, s1)"
    "client_get_object_tagging (session_client sp ''s3'')
       (or_empty (BucketName (h a))) (or_empty (ObjectKey (h a))) s1 = (Inr tag_set, s')"
    "h' = h(a := (h a)\<lparr>ObjectContents := Some body,
            ObjectArn := Some (''arn:aws:s3:::'' @ or_empty (BucketName (h a)) @ ''/''
                                 @ or_empty (ObjectKey (h a))),
            Tags := Some (get_model_tags_from_tags tag_set)\<rparr>)"
    by blast
  then show ?thesis
    by (intro exI [of _ sp] exI [of _ a] exI [of _ body] exI [of _ s1] exI [of _ tag_set])
       (simp add: get_model_tags_from_tags_def)
qed

text \<open>
  A run on a backend that holds the object \<open>b/k\<close> with the text \<open>new text\<close> and two
  tags, the second without a \<^verbatim>\<open>Value\<close>; the request's model held the text \<open>hi\<close> and
  no tags.
\<close>

theorem read_handler_mutates_desired_state_witness:
  "read_handler
       (tagging_session [[(''Key'', ''team''), (''Value'', ''infra'')], [(''Key'', ''env'')]])
       demo_request [] demo_heap [((''b'', ''k''), ''new text'')]
     = (Inr ((ProgressEvent_default SUCCESS)\<lparr>resourceModel := Some 0\<rparr>),
        demo_heap(0 := \<lparr>BucketName = Some ''b'', ObjectKey = Some ''k'',
                        ObjectContents = Some ''new text'',
                        ObjectArn = Some ''arn:aws:s3:::b/k'',
                        Tags = Some [\<lparr>Key = Some ''team'', Value = Some ''infra''\<rparr>,
                                     \<lparr>Key = Some ''env'', Value = None\<rparr>]\<rparr>),
        [((''b'', ''k''), ''new text'')])
   \<and> status ((ProgressEvent_default SUCCESS)\<lparr>resourceModel := Some 0\<rparr>) = SUCCESS
   \<and> (\<exists>sp a body s1 tag_set.
         tagging_session [[(''Key'', ''team''), (''Value'', ''infra'')], [(''Key'', ''env'')]]
           = Some sp
       \<and> desiredResourceState demo_request = Some a
       \<and> resourceModel ((ProgressEvent_default SUCCESS)\<lparr>resourceModel := Some 0\<rparr>) = Some a
       \<and> client_get_object (session_client sp ''s3'')
             (or_empty (BucketName (demo_heap a))) (or_empty (ObjectKey (demo_heap a)))
             [((''b'', ''k''), ''new text'')] = (Inr body, s1)
       \<and> client_get_object_tagging (session_client sp ''s3'')
             (or_empty (BucketName (demo_heap a))) (or_empty (ObjectKey (demo_heap a)))
             s1 = (Inr tag_set, [((''b'', ''k''), ''new text'')])
       \<and> ObjectContents
            ((demo_heap(0 := \<lparr>BucketName = Some ''b'', ObjectKey = Some ''k'',
                        ObjectContents = Some ''new text'',
                        ObjectArn = Some ''arn:aws:s3:::b/k'',
                        Tags = Some [\<lparr>Key = Some ''team'', Value = Some ''infra''\<rparr>,
                                     \<lparr>Key = Some ''env'', Value = None\<rparr>]\<rparr>)) a) = Some body
       \<and> Some [\<lparr>Key = Some ''team'', Value = Some ''infra''\<rparr>,
                \<lparr>Key = Some ''env'', Value = None\<rparr>]
           = Some (map (\<lambda>tag. \<lparr>Key = map_of tag ''Key'', Value = map_of tag ''Value''\<rparr>)
                     tag_set)
       \<and> ObjectContents (demo_heap a) = Some ''hi'' \<and> Tags (demo_heap a) = None)"
proof -
  have run: "read_handler
       (tagging_session [[(''Key'', ''team''), (''Value'', ''infra'')], [(''Key'', ''env'')]])
       demo_request [] demo_heap [((''b'', ''k''), ''new text'')]
     = (Inr ((ProgressEvent_default SUCCESS)\<lparr>resourceModel := Some 0\<rparr>),
        demo_heap(0 := \<lparr>BucketName = Some ''b'', ObjectKey = Some ''k'',
                        ObjectContents = Some ''new text'',
                        ObjectArn = Some ''arn:aws:s3:::b/k'',
                        Tags = Some [\<lparr>Key = Some ''team'', Value = Some ''infra''\<rparr>,
                                     \<lparr>Key = Some ''env'', Value = None\<rparr>]\<rparr>),
        [((''b'', ''k''), ''new text'')])"
    by (simp add: run_defs event_defs)
  have ok: "status ((ProgressEvent_default SUCCESS)\<lparr>resourceModel := Some 0\<rparr>) = SUCCESS"
    by (simp add: ProgressEvent_default_def)
  have old: "desiredResourceState demo_request = Some 0"
    "ObjectContents (demo_heap 0) = Some ''hi''" "Tags (demo_heap 0) = None"
    by (simp_all add: demo_request_def demo_heap_def)
  from read_handler_mutates_desired_state [OF run ok] old
  have "\<exists>sp a body s1 tag_set.
         tagging_session [[(''Key'', ''team''), (''Value'', ''infra'')], [(''Key'', ''env'')]]
           = Some sp
       \<and> desiredResourceState demo_request = Some a
       \<and> resourceModel ((ProgressEvent_default SUCCESS)\<lparr>resourceModel := Some 0\<rparr>) = Some a
       \<and> client_get_object (session_client sp ''s3'')
             (or_empty (BucketName (demo_heap a))) (or_empty (ObjectKey (demo_heap a)))
             [((''b'', ''k''), ''new text'')] = (Inr body, s1)
       \<and> client_get_object_tagging (session_client sp ''s3'')
             (or_empty (BucketName (demo_heap a))) (or_empty (ObjectKey (demo_heap a)))
             s1 = (Inr tag_set, [((''b'', ''k''), ''new text'')])
       \<and> ObjectContents
            ((demo_heap(0 := \<lparr>BucketName = Some ''b'', ObjectKey = Some ''k'',
                        ObjectContents = Some ''new text'',
                        ObjectArn = Some ''arn:aws:s3:::b/k'',
                        Tags = Some [\<lparr>Key = Some ''team'', Value = Some ''infra''\<rparr>,
                                     \<lparr>Key = Some ''env'', Value = None\<rparr>]\<rparr>)) a) = Some body
       \<and> Some [\<lparr>Key = Some ''team'', Value = Some ''infra''\<rparr>,
                \<lparr>Key = Some ''env'', Value = None\<rparr>]
           = Some (map (\<lambda>tag. \<lparr>Key = map_of tag ''Key'', Value = map_of tag ''Value''\<rparr>)
                     tag_set)
       \<and> ObjectContents (demo_heap a) = Some ''hi'' \<and> Tags (demo_heap a) = None"
    by (elim exE conjE) (intro exI conjI, assumption+, simp_all)
  with run ok show ?thesis by blast
qed

section \<open>Resumed create and update\<close>

text \<open>
  Claim C1 says that a RESUMED create or update whose Read sub-step fails with NotFound
  returns \<open>IN_PROGRESS\<close>, and that any other classified error kind of Read is returned as
  FAILED with that kind. A concrete run shows otherwise: the backend holds no object, the
  callback context carries the in-progress marker, Read reports NotFound, and
  \<^verbatim>\<open>create_handler\<close> returns FAILED with NotFound.
\<close>

theorem resumed_create_not_found_counterexample:
  "is_callback CALLBACK_STATUS_IN_PROGRESS
   \<and> fst (read_handler (store_session True) demo_request CALLBACK_STATUS_IN_PROGRESS
            demo_heap [])
       = Inr (ProgressEvent_failed NotFound ''Error: The specified key does not exist.'')
   \<and> fst (create_handler (store_session True) demo_request CALLBACK_STATUS_IN_PROGRESS
            demo_heap [])
       = Event (ProgressEvent_failed NotFound
                  ''Error: Error: The specified key does not exist.'')
   \<and> result_status (fst (create_handler (store_session True) demo_request
                            CALLBACK_STATUS_IN_PROGRESS demo_heap [])) \<noteq> Some IN_PROGRESS"
  by (simp add: run_defs event_defs)

text \<open>
  Claim C1, amended. For every RESUMED invocation of create or update (callback context
  carrying the in-progress marker), when the Read sub-step fails with NotFound the
  handler returns FAILED with kind NotFound, built from the message of Read's outcome,
  and leaves store and backend as Read left them. (What the handlers do when Read fails
  with another kind is not part of this statement; see
  \<open>resumed_other_error_returns_none\<close>.)
\<close>

theorem resumed_not_found_fails:
  assumes "is_callback callback_context"
    and "read_handler session request callback_context h s = (Inr rh, h', s')"
    and "errorCode rh = Some NotFound"
  shows "create_handler session request callback_context h s =
           (Event (progress_event_failed NotFound (message rh)), h', s')
       \<and> update_handler session request callback_context h s =
           (Event (progress_event_failed NotFound (message rh)), h', s')
       \<and> status (progress_event_failed NotFound (message rh)) = FAILED
       \<and> errorCode (progress_event_failed NotFound (message rh)) = Some NotFound"
  using assms(1) callback_helper_not_found(1) [OF assms(2,3)]
  by (simp add: create_handler_def update_handler_def event_defs)

theorem resumed_not_found_fails_witness:
  "is_callback CALLBACK_STATUS_IN_PROGRESS
   \<and> read_handler (store_session True) demo_request CALLBACK_STATUS_IN_PROGRESS demo_heap []
       = (Inr (ProgressEvent_failed NotFound ''Error: The specified key does not exist.''),
          demo_heap, [])
   \<and> errorCode (ProgressEvent_failed NotFound ''Error: The specified key does not exist.'')
       = Some NotFound
   \<and> update_handler (store_session True) demo_request CALLBACK_STATUS_IN_PROGRESS demo_heap []
       = (Event (ProgressEvent_failed NotFound
                   ''Error: Error: The specified key does not exist.''), demo_heap, [])"
proof -
  have marker: "is_callback CALLBACK_STATUS_IN_PROGRESS"
    by (simp add: is_callback_def)
  have rd: "read_handler (store_session True) demo_request CALLBACK_STATUS_IN_PROGRESS
              demo_heap []
       = (Inr (ProgressEvent_failed NotFound ''Error: The specified key does not exist.''),
          demo_heap, [])"
    by (simp add: run_defs event_defs)
  have code: "errorCode (ProgressEvent_failed NotFound
                ''Error: The specified key does not exist.'') = Some NotFound"
    by (simp add: event_defs)
  from resumed_not_found_fails [OF marker rd code] marker rd code
  show ?thesis by (simp add: event_defs)
qed

text \<open>
  When Read fails with a classified kind other than NotFound, the nested conditional of
  \<^verbatim>\<open>_callback_helper\<close> has no branch for it and the function ends without
  \<^verbatim>\<open>return\<close>: the handler yields Python's \<^verbatim>\<open>None\<close>, neither FAILED nor \<open>IN_PROGRESS\<close>.
\<close>

lemma resumed_other_error_returns_none:
  assumes "is_callback callback_context"
    and "read_handler session request callback_context h s = (Inr rh, h', s')"
    and "errorCode rh = Some code" and "code \<noteq> NotFound"
  shows "create_handler session request callback_context h s = (NoneReturned, h', s')"
    and "update_handler session request callback_context h s = (NoneReturned, h', s')"
  using assms(1) callback_helper_other_error [OF assms(2-4)]
  by (simp_all add: create_handler_def update_handler_def)

lemma resumed_throttled_run:
  "fst (create_handler (failing_session (ClientError ''RequestLimitExceeded'' ''Rate exceeded''))
          demo_request CALLBACK_STATUS_IN_PROGRESS demo_heap []) = NoneReturned"
  by (simp add: run_defs event_defs)

section \<open>Resumed delete\<close>








section \<open>Fresh create and update\<close>

text \<open>
  What a FRESH create or update of the awscommunity module does when the backend
  acknowledges the write: the write is made in this invocation (the backend state is the
  one the put call returned), the model's identifier is set, and the outcome is
  \<open>IN_PROGRESS\<close> with the in-progress callback context and a delay of five seconds.
  The acknowledgment itself is not inspected.
\<close>

lemma fresh_write_in_progress:
  assumes "\<not> is_callback callback_context"
    and "session = Some sp" and "desiredResourceState request = Some a"
    and "upload_s3_helper (Some (h a)) request = Inr params"
    and "BucketName (h a) = Some b" and "ObjectKey (h a) = Some k"
    and "ObjectContents (h a) = Some body"
    and "client_put_object (session_client sp ''s3'') b k body (map_of params ''Tags'') s
           = (Inr (Some ack), s')"
  shows "create_handler session request callback_context h s =
           (Event (progress_event_callback (Some a)),
            h(a := (h a)\<lparr>ObjectArn := Some (spec_object_arn b k)\<rparr>), s')"
    and "update_handler session request callback_context h s =
           (Event (progress_event_callback (Some a)),
            h(a := (h a)\<lparr>ObjectArn := Some (spec_object_arn b k)\<rparr>), s')"
  using assms(1,3) create_handler_try_put [where h = h and a = a, OF assms(2,4-8)]
  by (simp_all add: update_handler_eq create_handler_def)

lemma progress_event_callback_fields:
  "status (progress_event_callback model) = IN_PROGRESS
   \<and> callbackContext (progress_event_callback model) = Some [(''status'', IN_PROGRESS)]
   \<and> callbackDelaySeconds (progress_event_callback model) = 5
   \<and> resourceModel (progress_event_callback model) = model"
  by (simp add: event_defs CALLBACK_STATUS_IN_PROGRESS_def CALLBACK_DELAY_SECONDS_def)

text \<open>
  The aws module's create does the same when the acknowledgment carries a
  \<^verbatim>\<open>VersionId\<close>, and raises when it does not.
\<close>

lemma aws_fresh_create:
  assumes "\<not> is_callback callback_context"
    and "session = Some sp" and "desiredResourceState request = Some a"
    and "aws_upload_s3_helper (Some (h a)) request = Some params"
    and "BucketName (h a) = Some b" and "ObjectKey (h a) = Some k"
    and "ObjectContents (h a) = Some body"
    and "client_put_object (session_client sp ''s3'') b k body None s = (Inr (Some ack), s')"
  shows "aws_create_handler session request callback_context h s =
           (if map_of ack ''VersionId'' = None
            then (Raised (GenericException ''File Failed to upload''), h, s')
            else (Event (progress_event_callback (Some a)),
                  h(a := (h a)\<lparr>ObjectArn := Some (spec_object_arn b k)\<rparr>), s'))"
  using assms(1,3) aws_create_handler_try_put [where h = h and a = a, OF assms(2,4-8)]
  by (simp add: aws_create_handler_def)

text \<open>
  Claim C3 says that a FRESH create whose put-object acknowledgment lacks a version
  identifier returns a FAILED outcome. A concrete run on a backend whose acknowledgment
  is \<^verbatim>\<open>{"ETag": "e1"}\<close>: the awscommunity module returns \<open>IN_PROGRESS\<close>, and the aws
  module returns no outcome at all, it raises.
\<close>

theorem fresh_create_without_version_id_counterexample:
  "\<not> is_callback []
   \<and> fst (client_put_object (store_client False) ''b'' ''k'' ''hi'' None [])
       = Inr (Some [(''ETag'', ''e1'')])
   \<and> map_of [(''ETag'', ''e1'')] ''VersionId'' = None
   \<and> result_status (fst (create_handler (store_session False) demo_request [] demo_heap []))
       = Some IN_PROGRESS
   \<and> fst (aws_create_handler (store_session False) demo_request [] demo_heap [])
       = Raised (GenericException ''File Failed to upload'')
   \<and> result_status (fst (aws_create_handler (store_session False) demo_request [] demo_heap []))
       \<noteq> Some FAILED"
  by (simp add: run_defs event_defs)

text \<open>
  Claim C3, amended. For every FRESH create invocation in which the backend's put-object
  acknowledgment lacks a version identifier, the handler does not return SUCCESS, and it
  does not return FAILED either: \<^verbatim>\<open>create_handler\<close> of the aws module raises
  \<^verbatim>\<open>Exception("File Failed to upload")\<close> and returns no outcome, leaving the model as it
  was; \<^verbatim>\<open>create_handler\<close> of the awscommunity module does not look at the
  acknowledgment, sets the model's identifier and returns \<open>IN_PROGRESS\<close> with the
  callback context.
\<close>

theorem fresh_create_without_version_id:
  assumes "\<not> is_callback callback_context"
    and "session = Some sp" and "desiredResourceState request = Some a"
    and "upload_s3_helper (Some (h a)) request = Inr params"
    and "BucketName (h a) = Some b" and "ObjectKey (h a) = Some k"
    and "ObjectContents (h a) = Some body"
    and "map_of ack ''VersionId'' = None"
  shows "(client_put_object (session_client sp ''s3'') b k body None s = (Inr (Some ack), s')
            \<longrightarrow> aws_create_handler session request callback_context h s
                  = (Raised (GenericException ''File Failed to upload''), h, s'))
       \<and> (client_put_object (session_client sp ''s3'') b k body (map_of params ''Tags'') s
              = (Inr (Some ack), s')
            \<longrightarrow> create_handler session request callback_context h s
                  = (Event (progress_event_callback (Some a)),
                     h(a := (h a)\<lparr>ObjectArn := Some (spec_object_arn b k)\<rparr>), s')
                \<and> status (progress_event_callback (Some a)) = IN_PROGRESS)"
proof (intro conjI impI)
  assume put: "client_put_object (session_client sp ''s3'') b k body None s
                 = (Inr (Some ack), s')"
  from aws_fresh_create [where h = h and a = a, OF assms(1-3)
         upload_s3_helper_aws [where m = "h a", OF assms(4-7)] assms(5-7) put]
    assms(8)
  show "aws_create_handler session request callback_context h s
          = (Raised (GenericException ''File Failed to upload''), h, s')"
    by simp
next
  assume put: "client_put_object (session_client sp ''s3'') b k body (map_of params ''Tags'') s
                 = (Inr (Some ack), s')"
  from fresh_write_in_progress(1) [where h = h and a = a, OF assms(1-7) put]
  show "create_handler session request callback_context h s
          = (Event (progress_event_callback (Some a)),
             h(a := (h a)\<lparr>ObjectArn := Some (spec_object_arn b k)\<rparr>), s')" .
next
  show "status (progress_event_callback (Some a)) = IN_PROGRESS"
    by (simp add: event_defs)
qed

theorem fresh_create_without_version_id_witness:
  "\<not> is_callback []
   \<and> store_session False = Some (SessionProxy (\<lambda>service_name. store_client False))
   \<and> desiredResourceState demo_request = Some 0
   \<and> upload_s3_helper (Some (demo_heap 0)) demo_request
       = Inr [(''Bucket'', ''b''), (''Key'', ''k''), (''Body'', ''hi'')]
   \<and> BucketName (demo_heap 0) = Some ''b'' \<and> ObjectKey (demo_heap 0) = Some ''k''
   \<and> ObjectContents (demo_heap 0) = Some ''hi''
   \<and> map_of [(''ETag'', ''e1'')] ''VersionId'' = None
   \<and> client_put_object (store_client False) ''b'' ''k'' ''hi'' None []
       = (Inr (Some [(''ETag'', ''e1'')]), [((''b'', ''k''), ''hi'')])
   \<and> aws_create_handler (store_session False) demo_request [] demo_heap []
       = (Raised (GenericException ''File Failed to upload''), demo_heap,
          [((''b'', ''k''), ''hi'')])
   \<and> create_handler (store_session False) demo_request [] demo_heap []
       = (Event (progress_event_callback (Some 0)),
          demo_heap(0 := (demo_heap 0)\<lparr>ObjectArn := Some (spec_object_arn ''b'' ''k'')\<rparr>),
          [((''b'', ''k''), ''hi'')])"
proof -
  have fresh: "\<not> is_callback []"
    by (simp add: is_callback_def CALLBACK_STATUS_IN_PROGRESS_def)
  have ses: "store_session False = Some (SessionProxy (\<lambda>service_name. store_client False))"
    by (simp add: store_session_def)
  have model: "desiredResourceState demo_request = Some 0"
    by (simp add: demo_request_def)
  have params: "upload_s3_helper (Some (demo_heap 0)) demo_request
       = Inr [(''Bucket'', ''b''), (''Key'', ''k''), (''Body'', ''hi'')]"
    by (simp add: upload_s3_helper_def demo_heap_def demo_request_def)
  have fields: "BucketName (demo_heap 0) = Some ''b''" "ObjectKey (demo_heap 0) = Some ''k''"
    "ObjectContents (demo_heap 0) = Some ''hi''"
    by (simp_all add: demo_heap_def)
  have ack: "map_of [(''ETag'', ''e1'')] ''VersionId'' = None"
    by simp
  have put: "client_put_object (store_client False) ''b'' ''k'' ''hi'' None []
       = (Inr (Some [(''ETag'', ''e1'')]), [((''b'', ''k''), ''hi'')])"
    by (simp add: store_client_def)
  from fresh_create_without_version_id
         [where h = demo_heap and a = 0 and s = "[]" and s' = "[((''b'', ''k''), ''hi'')]",
          OF fresh ses model params fields ack]
       put fresh ses model params fields ack
  show ?thesis by simp
qed

text \<open>
  Claim C4 says that every FRESH create or update whose backend write succeeds performs
  the write, sets the identifier and returns \<open>IN_PROGRESS\<close> with the callback context
  and a delay of five seconds. \<^verbatim>\<open>update_handler\<close> of the aws module tests
  \<^verbatim>\<open>not _is_callback(...)\<close>, so a FRESH update goes to the callback helper instead of
  the write. The run: the backend would acknowledge the write with a
  \<^verbatim>\<open>VersionId\<close>, the callback context is empty, and the handler returns SUCCESS; the
  backend and the model are what they were, no object is written, no identifier is set.
\<close>

theorem aws_fresh_update_skips_write:
  "\<not> is_callback []
   \<and> fst (client_put_object (store_client True) ''b'' ''k'' ''hi'' None [])
       = Inr (Some [(''ETag'', ''e1''), (''VersionId'', ''v1'')])
   \<and> aws_update_handler (store_session True) demo_request [] demo_heap []
       = (Event \<lparr>status = SUCCESS, errorCode = None, message = [], callbackContext = None,
                 callbackDelaySeconds = 0, resourceModel = Some 0, resourceModels = None\<rparr>,
          demo_heap, [])
   \<and> ObjectArn (demo_heap 0) = None"
  by (simp add: run_defs event_defs)

text \<open>
  The same input given to the aws module's create, and to create and update of the
  awscommunity module, does what the claim says.
\<close>

lemma fresh_write_runs:
  "aws_create_handler (store_session True) demo_request [] demo_heap []
     = (Event (progress_event_callback (Some 0)),
        demo_heap(0 := (demo_heap 0)\<lparr>ObjectArn := Some ''arn:aws:s3:::b/k''\<rparr>),
        [((''b'', ''k''), ''hi'')])"
  "create_handler (store_session True) demo_request [] demo_heap []
     = (Event (progress_event_callback (Some 0)),
        demo_heap(0 := (demo_heap 0)\<lparr>ObjectArn := Some ''arn:aws:s3:::b/k''\<rparr>),
        [((''b'', ''k''), ''hi'')])"
  "update_handler (store_session True) demo_request [] demo_heap []
     = (Event (progress_event_callback (Some 0)),
        demo_heap(0 := (demo_heap 0)\<lparr>ObjectArn := Some ''arn:aws:s3:::b/k''\<rparr>),
        [((''b'', ''k''), ''hi'')])"
  by (simp_all add: run_defs event_defs)

section \<open>Tag list\<close>

text \<open>
  Without stack-level tags \<^verbatim>\<open>_build_tag_list\<close> returns the model's tags in their order;
  with any stack-level tag it raises, because \<^verbatim>\<open>_get_tags_from_desired_resource_tags\<close>
  reads its accumulator before binding it.
\<close>

lemma build_tag_list_stack_tags_raise:
  assumes "desiredResourceTags request = Some (d # ds)"
  shows "build_tag_list model request = Inl (UnboundLocalError ''tags'')"
  using assms
  by (cases d) (simp add: build_tag_list_def get_tags_from_desired_resource_tags_def)

lemma build_tag_list_model_tags_only:
  assumes "desiredResourceTags request = None \<or> desiredResourceTags request = Some []"
  shows "build_tag_list (Some m) request =
           (case Tags m of Some (t # ts) \<Rightarrow> get_tags_from_model_tags (t # ts) | _ \<Rightarrow> Inr [])"
  using assms
  by (auto simp: build_tag_list_def split: option.splits list.splits sum.splits)

text \<open>
  Claim C6 gives stack tags \<^verbatim>\<open>{env: prod}\<close> and model tags \<^verbatim>\<open>[(team, infra)]\<close> and
  expects the list \<^verbatim>\<open>env=prod, team=infra\<close>. At that input \<^verbatim>\<open>_build_tag_list\<close> raises
  \<^verbatim>\<open>UnboundLocalError\<close>, and a FRESH create with that request fails with InternalFailure
  without writing anything.
\<close>

theorem build_tag_list_stack_and_model_tags:
  "desiredResourceTags tagged_request = Some [(''env'', ''prod'')]
   \<and> Tags tagged_model = Some [\<lparr>Key = Some ''team'', Value = Some ''infra''\<rparr>]
   \<and> build_tag_list (Some tagged_model) tagged_request = Inl (UnboundLocalError ''tags'')
   \<and> create_handler (store_session True) tagged_request [] (demo_heap(0 := tagged_model)) []
       = (Event (ProgressEvent_failed InternalFailure ''Error: tags''),
          demo_heap(0 := tagged_model), [])"
  by (simp add: run_defs event_defs)


section \<open>The derived identifier\<close>















end
